theory Spec2Isabelle
  imports Main
begin

section \<open>pyxnat/core/downloadutils.py\<close>

text \<open>
  The module is Python 2. Its strings are byte strings, modelled as \<open>string\<close>; a
  parameter that may be \<open>None\<close> is an \<open>option\<close>; an exception is a value of
  \<open>error\<close>, returned as \<open>Inl\<close>.
\<close>

datatype error =
    Exception string
  | EnvironmentError string
  | IOError string
  | BadZipfile string
  | TypeError string
  | ValueError string
  | LookupError string

subsection \<open>String primitives of Python used by the module\<close>

text \<open>\<open>s.split(sep)\<close> with a one-character separator: never empty, \<open>''.split(',') = ['']\<close>.\<close>

fun split_on :: "char \<Rightarrow> string \<Rightarrow> string list" where
  "split_on sep [] = [[]]"
| "split_on sep (c # cs) =
     (if c = sep then [] # split_on sep cs
      else (case split_on sep cs of
              [] \<Rightarrow> [[c]]
            | x # xs \<Rightarrow> (c # x) # xs))"

text \<open>The characters \<open>str.strip()\<close> removes: tab, newline, vertical tab, form feed,
  carriage return, space (\<open>string.whitespace\<close>).\<close>

definition is_whitespace :: "char \<Rightarrow> bool" where
  "is_whitespace c \<longleftrightarrow>
     c = CHR 0x09 \<or> c = CHR 0x0A \<or> c = CHR 0x0B \<or> c = CHR 0x0C \<or> c = CHR 0x0D \<or> c = CHR '' ''"

definition strip :: "string \<Rightarrow> string" where
  "strip s = rev (dropWhile is_whitespace (rev (dropWhile is_whitespace s)))"

text \<open>\<open>sep.join(xs)\<close>.\<close>

fun join :: "string \<Rightarrow> string list \<Rightarrow> string" where
  "join sep [] = []"
| "join sep [x] = x"
| "join sep (x # y # ys) = x @ sep @ join sep (y # ys)"

text \<open>\<open>needle in hay\<close> on strings: \<open>needle\<close> occurs as a contiguous substring.\<close>

fun contains :: "string \<Rightarrow> string \<Rightarrow> bool" where
  "contains needle [] = (needle = [])"
| "contains needle (c # cs) =
     (take (length needle) (c # cs) = needle \<or> contains needle cs)"

text \<open>The extended slice \<open>xs[i::2]\<close> is \<open>step2 (drop i xs)\<close>.\<close>

fun step2 :: "'a list \<Rightarrow> 'a list" where
  "step2 [] = []"
| "step2 [x] = [x]"
| "step2 (x # y # zs) = x # step2 zs"

subsection \<open>make_constraints_list\<close>

text \<open>The loop of lines 53 to 56, with \<open>constraints_list\<close> as the accumulator that
  \<open>append\<close> extends.\<close>

fun collect_cleaned :: "string list \<Rightarrow> string list \<Rightarrow> string list" where
  "collect_cleaned constraints_list [] = constraints_list"
| "collect_cleaned constraints_list (c # cs) =
     (let cleaned = strip c
      in if cleaned \<noteq> [] then collect_cleaned (constraints_list @ [cleaned]) cs
         else collect_cleaned constraints_list cs)"

text \<open>\<open>list(set(xs))\<close> enumerates the distinct elements of \<open>xs\<close> in an order that
  depends on the hashes. The model fixes one enumeration, \<open>remdups\<close>; the theorems below
  speak of the set of the result and of its length only.\<close>

definition list_of_set :: "string list \<Rightarrow> string list" where
  "list_of_set xs = remdups xs"

definition make_constraints_list :: "string \<Rightarrow> error + string list" where
  \<open>make_constraints_list constraints_str =
     (let constraints_list = collect_cleaned [] (split_on CHR '','' constraints_str);
          constraints_list = list_of_set constraints_list
      in if length constraints_list > 1 \<and> ''ALL'' \<in> set constraints_list
         then Inl (ValueError
           ''The "ALL" scan type constraint cannot be used with any other constraint'')
         else Inr constraints_list)\<close>

text \<open>The constraint tokens in the words of the specification: the comma-separated
  segments, trimmed, the empty ones discarded, as a set.\<close>

definition trimmed_tokens :: "string \<Rightarrow> string set" where
  "trimmed_tokens raw = set (filter (\<lambda>t. t \<noteq> []) (map strip (split_on CHR '','' raw)))"

subsection \<open>The local world: file system, archive handles, standard output\<close>

type_synonym path = string

text \<open>A file holds plain bytes or a zip archive, whose members are (name, data) in
  archive order.\<close>

datatype content = Bytes string | ZipData "(string \<times> string) list"

type_synonym filesystem = "path \<rightharpoonup> content"

text \<open>\<open>open_zips\<close> lists the archives whose \<open>ZipFile\<close> handle is open; \<open>preset_path\<close> is
  what \<open>cache.preset\<close> last stored; \<open>exec_calls\<close> records the URIs handed to \<open>_exec\<close>.\<close>

record world =
  files :: filesystem
  open_zips :: "path list"
  stdout :: "string list"
  preset_path :: "path option"
  exec_calls :: "string list"

text \<open>The owning object. Its class is not part of this module: \<open>cbase\<close> is \<open>_cbase\<close>,
  \<open>cbase_class_name\<close> is \<open>_cbase.__class__.__name__\<close> (the class of a string:
  \<open>str\<close>), \<open>available_items\<close> is what \<open>instance.get(instance)\<close> returns (the query is taken to
  return normally and to leave the local files alone), and \<open>transport\<close> is
  what \<open>_intf._exec\<close> does to the files given the URI and the preset path: it may raise
  (\<open>Some\<close> error) and may write files.\<close>

record xnat_instance =
  cbase :: string
  cbase_class_name :: string
  available_items :: "string list"
  transport :: "string \<Rightarrow> path option \<Rightarrow> filesystem \<Rightarrow> error option \<times> filesystem"

text \<open>\<open>os.path.join(a, b)\<close> of \<open>posixpath\<close>.\<close>

definition path_join :: "path \<Rightarrow> path \<Rightarrow> path" where
  "path_join a b =
     (if take 1 b = ''/'' then b
      else if a = [] \<or> last a = CHR ''/'' then a @ b
      else a @ ''/'' @ b)"

definition path_exists :: "path \<Rightarrow> world \<Rightarrow> bool" where
  "path_exists p w \<longleftrightarrow> files w p \<noteq> None"

definition print :: "string \<Rightarrow> world \<Rightarrow> world" where
  "print s w = w\<lparr>stdout := stdout w @ [s]\<rparr>"

definition str_bool :: "bool \<Rightarrow> string" where
  "str_bool b = (if b then ''True'' else ''False'')"

fun str_error :: "error \<Rightarrow> string" where
  "str_error (Exception m) = m"
| "str_error (EnvironmentError m) = m"
| "str_error (IOError m) = m"
| "str_error (BadZipfile m) = m"
| "str_error (TypeError m) = m"
| "str_error (ValueError m) = m"
| "str_error (LookupError m) = m"

text \<open>\<open>IOError\<close> is a subclass of \<open>EnvironmentError\<close>.\<close>

fun is_EnvironmentError :: "error \<Rightarrow> bool" where
  "is_EnvironmentError (EnvironmentError m) = True"
| "is_EnvironmentError (IOError m) = True"
| "is_EnvironmentError e = False"

subsection \<open>default_zip_name\<close>

definition default_zip_name :: "xnat_instance \<Rightarrow> string list \<Rightarrow> error + string" where
  "default_zip_name inst constraints =
     (if contains ''%2A'' (cbase inst)
      then Inl (ValueError (''URI contains wildcards :'' @ cbase inst))
      else
        (let keys = step2 (drop 2 (split_on CHR ''/'' (cbase inst)));
             vals = drop 1 (step2 (drop 1 (split_on CHR ''/'' (cbase inst))));
             uri_dict = map_of (zip keys vals)
         in Inr (join ''_'' vals @ ''_'' @ cbase_class_name inst @ ''_''
                 @ join ''_'' constraints)))"

subsection \<open>zipfile.ZipFile\<close>

record zipfile =
  filename :: path
  members :: "(string \<times> string) list"

definition namelist :: "zipfile \<Rightarrow> string list" where
  "namelist fzip = map fst (members fzip)"

text \<open>\<open>zipfile.ZipFile(p, 'r')\<close>: \<open>IOError\<close> when there is no file, \<open>BadZipfile\<close> when it
  is not an archive; otherwise the member table is read and the handle is open.\<close>

definition ZipFile :: "path \<Rightarrow> world \<Rightarrow> (error + zipfile) \<times> world" where
  "ZipFile p w =
     (case files w p of
        None \<Rightarrow> (Inl (IOError (''No such file or directory: '' @ p)), w)
      | Some (Bytes b) \<Rightarrow> (Inl (BadZipfile ''File is not a zip file''), w)
      | Some (ZipData ms) \<Rightarrow>
          (Inr \<lparr>filename = p, members = ms\<rparr>, w\<lparr>open_zips := p # open_zips w\<rparr>))"

definition zip_close :: "zipfile \<Rightarrow> world \<Rightarrow> world" where
  "zip_close fzip w = w\<lparr>open_zips := remove1 (filename fzip) (open_zips w)\<rparr>"

text \<open>\<open>fzip.extractall(path=d)\<close> writes every member, in archive order, at the join of
  \<open>d\<close> and its name.\<close>

fun extract_members :: "(string \<times> string) list \<Rightarrow> path \<Rightarrow> filesystem \<Rightarrow> filesystem" where
  "extract_members [] d fs = fs"
| "extract_members ((m, data) # ms) d fs =
     extract_members ms d (fs(path_join d m \<mapsto> Bytes data))"

definition extractall :: "zipfile \<Rightarrow> path \<Rightarrow> world \<Rightarrow> world" where
  "extractall fzip d w = w\<lparr>files := extract_members (members fzip) d (files w)\<rparr>"

subsection \<open>unzip\<close>

text \<open>The \<open>check\<close> dictionary: \<open>run\<close> reads the file system.\<close>

record extraction_check =
  run :: "string \<Rightarrow> path \<Rightarrow> world \<Rightarrow> bool"
  desc :: string

definition default_check :: extraction_check where
  "default_check = \<lparr>run = (\<lambda>z d w. True), desc = []\<rparr>"

text \<open>What \<open>unzip\<close> and \<open>download\<close> return beside the flag: a list of paths, a member
  name, or the location of the archive.\<close>

datatype payload = Paths "path list" | Member string | Location path

text \<open>The loop of lines 36 to 38: the first member that fails the check, if any.\<close>

fun check_members :: "extraction_check \<Rightarrow> path \<Rightarrow> world \<Rightarrow> string list \<Rightarrow> string option" where
  "check_members chk dest_dir w [] = None"
| "check_members chk dest_dir w (member # rest) =
     (if \<not> run chk member dest_dir w then Some member
      else check_members chk dest_dir w rest)"

definition unzip :: "zipfile \<Rightarrow> path \<Rightarrow> extraction_check \<Rightarrow> world \<Rightarrow> (bool \<times> payload) \<times> world" where
  "unzip fzip dest_dir chk w =
     (case check_members chk dest_dir w (namelist fzip) of
        Some member \<Rightarrow> ((False, Member member), w)
      | None \<Rightarrow>
          ((True, Paths (map (\<lambda>f. path_join dest_dir f) (namelist fzip))),
           extractall fzip dest_dir w))"

subsection \<open>download\<close>

definition cache_preset :: "path \<Rightarrow> world \<Rightarrow> world" where
  "cache_preset p w = w\<lparr>preset_path := Some p\<rparr>"

definition intf_exec :: "xnat_instance \<Rightarrow> string \<Rightarrow> world \<Rightarrow> error option \<times> world" where
  "intf_exec inst uri w =
     (case transport inst uri (preset_path w) (files w) of
        (r, fs) \<Rightarrow> (r, w\<lparr>files := fs, exec_calls := exec_calls w @ [uri]\<rparr>))"

text \<open>Line 159 parses as
  \<open>lambda: (unzip(fzip, dest_dir, check) if not overwrite else (lambda: unzip(fzip, dest_dir)))\<close>:
  \<open>safeUnzip()\<close> is the tuple that \<open>unzip\<close> returned when \<open>overwrite\<close> is false, and a
  function otherwise.\<close>

datatype pyvalue =
    Tuple "bool \<times> payload"
  | Lambda "world \<Rightarrow> (bool \<times> payload) \<times> world"

definition safeUnzip ::
  "zipfile \<Rightarrow> path \<Rightarrow> extraction_check \<Rightarrow> bool \<Rightarrow> world \<Rightarrow> pyvalue \<times> world" where
  "safeUnzip fzip dest_dir chk overwrite w =
     (if \<not> overwrite
      then (case unzip fzip dest_dir chk w of (r, w') \<Rightarrow> (Tuple r, w'))
      else (Lambda (unzip fzip dest_dir default_check), w))"

text \<open>The second pair of parentheses of \<open>safeUnzip()()\<close>: calling a tuple raises.\<close>

definition call :: "pyvalue \<Rightarrow> world \<Rightarrow> (error + bool \<times> payload) \<times> world" where
  "call v w =
     (case v of
        Tuple t \<Rightarrow>
          (Inl (TypeError (CHR 0x27 # ''tuple'' @ CHR 0x27 # '' object is not callable'')), w)
      | Lambda f \<Rightarrow> (case f w of (r, w') \<Rightarrow> (Inr r, w')))"

text \<open>The \<open>check\<close> dictionary of lines 157 and 158: its \<open>run\<close> ignores the directory it is
  passed and tests the join of the enclosing \<open>dest_dir\<close> and the member name.\<close>

definition not_exists_check :: "path \<Rightarrow> extraction_check" where
  "not_exists_check dest_dir =
     \<lparr>run = (\<lambda>f d w. \<not> path_exists (path_join dest_dir f) w),
      desc = ''File does not exist in the parent directory''\<rparr>"

text \<open>The body of the \<open>try\<close> statement, lines 151 to 168.\<close>

definition download_try ::
  "path \<Rightarrow> path \<Rightarrow> string \<Rightarrow> xnat_instance \<Rightarrow> bool \<Rightarrow> bool \<Rightarrow> world
     \<Rightarrow> (error + bool \<times> payload) \<times> world" where
  "download_try dest_dir zip_location uri inst extract overwrite w0 =
     (let w1 = cache_preset zip_location w0;
          w2 = print uri w1
      in case intf_exec inst uri w2 of
           (Some e, w3) \<Rightarrow> (Inl e, w3)
         | (None, w3) \<Rightarrow>
             (case ZipFile zip_location w3 of
                (Inl e, w4) \<Rightarrow> (Inl e, w4)
              | (Inr fzip, w4) \<Rightarrow>
                  if extract then
                    (let chk = not_exists_check dest_dir
                     in case safeUnzip fzip dest_dir chk overwrite w4 of
                          (v, w5) \<Rightarrow>
                            (case call v w5 of
                               (Inl e, w6) \<Rightarrow> (Inl e, w6)
                             | (Inr (unzipped, paths), w6) \<Rightarrow>
                                 if \<not> unzipped then
                                   (let w7 = zip_close fzip w6
                                    in case paths of
                                         Member m \<Rightarrow>
                                           (Inl (EnvironmentError
                                              (''Unable to extract '' @ zip_location
                                               @ '' because file '' @ m
                                               @ '' failed the following test: ''
                                               @ desc chk)), w7)
                                       | _ \<Rightarrow>
                                           (Inl (TypeError
                                              (''cannot concatenate '' @ CHR 0x27 # ''str'' @ CHR 0x27 # '' and ''
                                               @ CHR 0x27 # ''list'' @ CHR 0x27 # '' objects'')), w7))
                                 else (Inr (True, paths), w6)))
                  else
                    (let w5 = zip_close fzip w4
                     in (Inr (True, Location zip_location), w5))))"

definition download ::
  "path option \<Rightarrow> string option \<Rightarrow> string \<Rightarrow> xnat_instance option \<Rightarrow> bool \<Rightarrow> bool \<Rightarrow> world
     \<Rightarrow> (error + bool \<times> payload) \<times> world" where
  \<open>download dest_dir zip_name uri inst extract overwrite w =
     (case inst of
        None \<Rightarrow>
          (Inl (Exception
             ''This function should be called directly but from an instance of a class that supports bulk downloading, eg. "Scans"''), w)
      | Some inst' \<Rightarrow>
     (case dest_dir of
        None \<Rightarrow> (Inl (Exception ''Destination directory is unspecified''), w)
      | Some dest_dir' \<Rightarrow>
     (case zip_name of
        None \<Rightarrow> (Inl (Exception ''Zip file name not specified''), w)
      | Some zip_name' \<Rightarrow>
          (let available = available_items inst';
               zip_location = path_join dest_dir' (zip_name' @ ''.zip'');
               w1 = print (str_bool overwrite) w
           in if \<not> overwrite \<and> path_exists zip_location w1
              then (Inl (EnvironmentError
                      (''Unable to download to '' @ zip_location
                       @ '' because this file already exists.'')), w1)
              else
                (case download_try dest_dir' zip_location uri inst' extract overwrite w1 of
                   (Inl e, w2) \<Rightarrow>
                     (if is_EnvironmentError e then (Inl e, print (str_error e) w2)
                      else (Inl e, print (str_error e) w2))
                 | (Inr r, w2) \<Rightarrow> (Inr r, w2))))))\<close>

subsection \<open>Concrete inputs\<close>

text \<open>A world with no files, an archive of two members, and an owner whose transport
  writes that archive at the preset path.\<close>

definition empty_world :: world where
  "empty_world =
     \<lparr>files = Map.empty, open_zips = [], stdout = [], preset_path = None, exec_calls = []\<rparr>"

definition example_archive :: "(string \<times> string) list" where
  "example_archive = [(''a'', ''x''), (''b'', ''y'')]"

definition example_instance :: xnat_instance where
  "example_instance =
     \<lparr>cbase = ''/projects/p/subjects/s/experiments/e'',
      cbase_class_name = ''str'',
      available_items = [''1''],
      transport = (\<lambda>uri p fs. case p of
                      None \<Rightarrow> (Some (IOError ''no preset path''), fs)
                    | Some zp \<Rightarrow> (None, fs(zp \<mapsto> ZipData example_archive)))\<rparr>"

definition example_zipfile :: zipfile where
  "example_zipfile = \<lparr>filename = ''/d/z.zip'', members = example_archive\<rparr>"

text \<open>A token as the loop of \<open>make_constraints_list\<close> leaves it: not empty, trimmed,
  without a comma.\<close>

definition clean_token :: "string \<Rightarrow> bool" where
  "clean_token t \<longleftrightarrow> t \<noteq> [] \<and> strip t = t \<and> CHR '','' \<notin> set t"

section \<open>Unfolding rules for concrete runs\<close>

lemmas world_defs = empty_world_def example_archive_def example_instance_def
  example_zipfile_def

lemmas download_defs = download_def download_try_def
  path_join_def path_exists_def print_def str_bool_def cache_preset_def intf_exec_def ZipFile_def
  zip_close_def safeUnzip_def call_def unzip_def namelist_def extractall_def default_check_def
  not_exists_check_def Let_def

section \<open>Properties of the string primitives\<close>

lemma collect_cleaned_eq:
  "collect_cleaned acc cs = acc @ filter (\<lambda>t. t \<noteq> []) (map strip cs)"
  by (induction cs arbitrary: acc) (simp_all add: Let_def)

lemma split_on_not_Nil: "split_on sep s \<noteq> []"
  by (induction s) (simp_all split: list.splits)

lemma split_on_no_sep: "x \<in> set (split_on sep s) \<Longrightarrow> sep \<notin> set x"
proof (induction s arbitrary: x)
  case Nil
  then show ?case by simp
next
  case (Cons c cs)
  show ?case
  proof (cases "c = sep")
    case True
    with Cons show ?thesis by auto
  next
    case False
    obtain y ys where ys: "split_on sep cs = y # ys"
      using split_on_not_Nil [of sep cs] by (cases "split_on sep cs") auto
    with Cons False show ?thesis by auto
  qed
qed

lemma split_on_single: "sep \<notin> set x \<Longrightarrow> split_on sep x = [x]"
  by (induction x) auto

lemma split_on_append:
  "sep \<notin> set x \<Longrightarrow> split_on sep (x @ sep # rest) = x # split_on sep rest"
  by (induction x) auto

lemma split_on_join:
  "xs \<noteq> [] \<Longrightarrow> \<forall>x \<in> set xs. sep \<notin> set x \<Longrightarrow> split_on sep (join [sep] xs) = xs"
proof (induction "[sep]" xs rule: join.induct)
  case 1
  then show ?case by simp
next
  case (2 x)
  then show ?case by (simp add: split_on_single)
next
  case (3 x y ys)
  then show ?case by (simp add: split_on_append)
qed

lemma set_strip: "set (strip s) \<subseteq> set s"
  unfolding strip_def by (auto dest!: set_dropWhileD)

lemma dropWhile_self: "xs = [] \<or> \<not> P (hd xs) \<Longrightarrow> dropWhile P xs = xs"
  by (cases xs) auto

lemma dropWhile_head: "dropWhile P xs = [] \<or> \<not> P (hd (dropWhile P xs))"
  by (induction xs) auto

lemma last_dropWhile: "dropWhile P xs \<noteq> [] \<Longrightarrow> last (dropWhile P xs) = last xs"
  by (induction xs) (auto split: if_splits)

lemma strip_idem: "strip (strip s) = strip s"
proof -
  define t where "t = dropWhile is_whitespace s"
  define u' where "u' = dropWhile is_whitespace (rev t)"
  have t: "t = [] \<or> \<not> is_whitespace (hd t)"
    unfolding t_def by (rule dropWhile_head)
  have u': "u' = [] \<or> \<not> is_whitespace (hd u')"
    unfolding u'_def by (rule dropWhile_head)
  have front: "rev u' = [] \<or> \<not> is_whitespace (hd (rev u'))"
  proof (cases "u' = []")
    case True
    then show ?thesis by simp
  next
    case False
    then have "last u' = last (rev t)"
      unfolding u'_def by (rule last_dropWhile)
    moreover have "t \<noteq> []"
      using False unfolding u'_def by auto
    ultimately have "hd (rev u') = hd t"
      using False by (simp add: hd_rev last_rev)
    with t \<open>t \<noteq> []\<close> show ?thesis by simp
  qed
  have "strip (rev u') = rev (dropWhile is_whitespace (rev (dropWhile is_whitespace (rev u'))))"
    by (simp add: strip_def)
  also have "dropWhile is_whitespace (rev u') = rev u'"
    using front by (rule dropWhile_self)
  also have "dropWhile is_whitespace (rev (rev u')) = u'"
    using u' by (simp add: dropWhile_self)
  finally have "strip (rev u') = rev u'" .
  moreover have "strip s = rev u'"
    by (simp add: strip_def u'_def t_def)
  ultimately show ?thesis by simp
qed

lemma strip_Nil: "strip [] = []"
  by (simp add: strip_def)

section \<open>Constraint parsing\<close>

lemma tokens_clean:
  assumes "t \<in> set (filter (\<lambda>t. t \<noteq> []) (map strip (split_on CHR '','' raw)))"
  shows "clean_token t"
proof -
  from assms obtain c where c: "c \<in> set (split_on CHR '','' raw)" and t: "t = strip c" and ne: "t \<noteq> []"
    by auto
  have "CHR '','' \<notin> set c" using c by (rule split_on_no_sep)
  then have "CHR '','' \<notin> set t" using set_strip [of c] t by auto
  with t ne show ?thesis by (simp add: clean_token_def strip_idem)
qed

lemma reparse_clean:
  assumes "\<forall>t \<in> set xs. clean_token t"
  shows "collect_cleaned [] (split_on CHR '','' (join '','' xs)) = xs"
proof (cases "xs = []")
  case True
  then show ?thesis by (simp add: strip_Nil)
next
  case False
  have "split_on CHR '','' (join [CHR '',''] xs) = xs"
    using False assms by (intro split_on_join) (auto simp: clean_token_def)
  moreover have "filter (\<lambda>t. t \<noteq> []) (map strip xs) = xs"
    using assms by (induction xs) (auto simp: clean_token_def)
  ultimately show ?thesis by (simp add: collect_cleaned_eq)
qed

text \<open>
  C8. \<open>make_constraints_list\<close> raises its \<open>ValueError\<close> exactly when the set of trimmed,
  non-empty tokens of the raw string has more than one element and contains \<open>ALL\<close>;
  otherwise it returns a duplicate-free list of exactly those tokens. On \<open>ALL,T1\<close> it
  raises, on \<open>ALL\<close> it returns \<open>[ALL]\<close>, and on \<open>T1,T1,T2\<close> it returns two tokens.
\<close>

theorem make_constraints_list_rejects_ALL_with_others:
  \<open>((\<exists>msg. make_constraints_list raw = Inl (ValueError msg))
      \<longleftrightarrow> 1 < card (trimmed_tokens raw) \<and> ''ALL'' \<in> trimmed_tokens raw)
   \<and> ((\<exists>xs. make_constraints_list raw = Inr xs \<and> set xs = trimmed_tokens raw \<and> distinct xs)
      \<longleftrightarrow> \<not> (1 < card (trimmed_tokens raw) \<and> ''ALL'' \<in> trimmed_tokens raw))
   \<and> (\<exists>msg. make_constraints_list ''ALL,T1'' = Inl (ValueError msg))
   \<and> make_constraints_list ''ALL'' = Inr [''ALL'']
   \<and> (\<exists>xs. make_constraints_list ''T1,T1,T2'' = Inr xs
         \<and> set xs = {''T1'', ''T2''} \<and> length xs = 2)\<close>
proof -
  let ?L = "filter (\<lambda>t. t \<noteq> []) (map strip (split_on CHR '','' raw))"
  have len: "length (remdups ?L) = card (trimmed_tokens raw)"
    by (simp add: trimmed_tokens_def length_remdups_card_conv)
  have st: "set (remdups ?L) = trimmed_tokens raw"
    by (simp add: trimmed_tokens_def)
  have a: "(\<exists>msg. make_constraints_list raw = Inl (ValueError msg))
      \<longleftrightarrow> 1 < card (trimmed_tokens raw) \<and> ''ALL'' \<in> trimmed_tokens raw"
    unfolding make_constraints_list_def list_of_set_def collect_cleaned_eq Let_def
    using len st by auto
  have b: "(\<exists>xs. make_constraints_list raw = Inr xs \<and> set xs = trimmed_tokens raw \<and> distinct xs)
      \<longleftrightarrow> \<not> (1 < card (trimmed_tokens raw) \<and> ''ALL'' \<in> trimmed_tokens raw)"
    unfolding make_constraints_list_def list_of_set_def collect_cleaned_eq Let_def
    using len st by auto
  have c: "\<exists>msg. make_constraints_list ''ALL,T1'' = Inl (ValueError msg)"
    by (simp add: make_constraints_list_def list_of_set_def strip_def is_whitespace_def Let_def)
  have d: "make_constraints_list ''ALL'' = Inr [''ALL'']"
    by (simp add: make_constraints_list_def list_of_set_def strip_def is_whitespace_def Let_def)
  have e: "\<exists>xs. make_constraints_list ''T1,T1,T2'' = Inr xs
             \<and> set xs = {''T1'', ''T2''} \<and> length xs = 2"
    by (simp add: make_constraints_list_def list_of_set_def strip_def is_whitespace_def Let_def)
  from a b c d e show ?thesis by blast
qed

text \<open>
  C9. When \<open>make_constraints_list\<close> succeeds on a raw string with the list \<open>xs\<close>, then for
  every enumeration \<open>ys\<close> of the same tokens (whatever order the set was listed in),
  joining \<open>ys\<close> with commas and parsing again succeeds and returns the same set of tokens.
\<close>

theorem make_constraints_list_idempotent:
  assumes "make_constraints_list raw = Inr xs" and "distinct ys" and "set ys = set xs"
  shows "\<exists>zs. make_constraints_list (join '','' ys) = Inr zs \<and> set zs = set xs"
proof -
  let ?L = "collect_cleaned [] (split_on CHR '','' raw)"
  from assms(1) have xs: "xs = remdups ?L"
    and ok: "\<not> (1 < length xs \<and> ''ALL'' \<in> set xs)"
    by (auto simp: make_constraints_list_def list_of_set_def Let_def split: if_splits)
  have "distinct xs"
    by (simp add: xs)
  then have "length ys = length xs"
    using assms(2,3) by (metis distinct_card)
  with ok assms(3) have ok': "\<not> (1 < length ys \<and> ''ALL'' \<in> set ys)"
    by simp
  have "\<forall>t \<in> set ys. clean_token t"
    using tokens_clean [of _ raw] by (simp add: assms(3) xs collect_cleaned_eq)
  then have "collect_cleaned [] (split_on CHR '','' (join '','' ys)) = ys"
    by (rule reparse_clean)
  moreover have "remdups ys = ys"
    using assms(2) by (rule distinct_remdups_id)
  ultimately have "make_constraints_list (join '','' ys) = Inr ys"
    using ok' by (simp add: make_constraints_list_def list_of_set_def Let_def
        del: remdups_id_iff_distinct)
  with assms(3) show ?thesis by simp
qed

theorem make_constraints_list_idempotent_witness:
  "make_constraints_list '' T1 ,T2,,T1'' = Inr [''T2'', ''T1'']
   \<and> distinct [''T1'', ''T2''] \<and> set [''T1'', ''T2''] = set [''T2'', ''T1'']
   \<and> (\<exists>zs. make_constraints_list (join '','' [''T1'', ''T2'']) = Inr zs
         \<and> set zs = set [''T2'', ''T1''])"
proof -
  have h: "make_constraints_list '' T1 ,T2,,T1'' = Inr [''T2'', ''T1'']"
    by (simp add: make_constraints_list_def list_of_set_def strip_def is_whitespace_def Let_def)
  have d: "distinct [''T1'', ''T2'']"
    by simp
  have s: "set [''T1'', ''T2''] = set [''T2'', ''T1'']"
    by auto
  show ?thesis
    using h d s make_constraints_list_idempotent [OF h d s] by simp
qed

section \<open>Guarded extraction\<close>

lemma check_members_None:
  "check_members chk d w ms = None \<longleftrightarrow> (\<forall>m \<in> set ms. run chk m d w)"
  by (induction ms) auto




section \<open>download\<close>

text \<open>
  C10. The value that \<open>instance.get(instance)\<close> returns does not influence \<open>download\<close>:
  two runs that differ only in that value give the same result or error and the same
  final world. In particular an empty list changes nothing.
\<close>

theorem download_ignores_availability:
  "download dest_dir zip_name uri (Some (inst\<lparr>available_items := a\<rparr>)) extract overwrite w
   = download dest_dir zip_name uri (Some (inst\<lparr>available_items := b\<rparr>)) extract overwrite w"
proof -
  have try_eq: "download_try d zl uri (inst\<lparr>available_items := c\<rparr>) ex ov v
                = download_try d zl uri inst ex ov v" for d zl c ex ov v
    by (simp add: download_try_def intf_exec_def)
  show ?thesis
    by (cases dest_dir; cases zip_name; cases overwrite) (simp_all add: download_def Let_def try_eq)
qed


text \<open>
  C7, as amended. The three checks come first: when the owner, the destination directory
  or the archive name is absent (\<open>None\<close>), \<open>download\<close> raises \<open>Exception\<close> and the world is
  exactly as before. The checks test for \<open>None\<close> only.
\<close>

theorem download_preconditions:
  "inst = None \<or> dest_dir = None \<or> zip_name = None \<Longrightarrow>
     \<exists>msg. download dest_dir zip_name uri inst extract overwrite w = (Inl (Exception msg), w)"
  by (auto simp: download_def split: option.splits)


text \<open>Witness for C7 as amended: every argument absent, only the directory absent, only
  the name absent.\<close>

theorem download_preconditions_witness:
  "(\<exists>msg. download None None ''u'' None True True empty_world = (Inl (Exception msg), empty_world))
   \<and> (\<exists>msg. download None (Some ''z'') ''u'' (Some example_instance) True True empty_world
         = (Inl (Exception msg), empty_world))
   \<and> (\<exists>msg. download (Some ''/d'') None ''u'' (Some example_instance) True True empty_world
         = (Inl (Exception msg), empty_world))"
  using download_preconditions [of None None None "''u''" True True empty_world]
    download_preconditions [of "Some example_instance" None "Some ''z''" "''u''" True True empty_world]
    download_preconditions [of "Some example_instance" "Some ''/d''" None "''u''" True True empty_world]
  by simp


text \<open>Counterexample to C7 as stated: an empty destination directory, and an empty
  archive name, are not refused; the download runs and returns the archive location.\<close>

theorem download_empty_dest_dir_counterexample:
  "fst (download (Some '''') (Some ''z'') ''u'' (Some example_instance) False True empty_world)
     = Inr (True, Location ''z.zip'')
   \<and> fst (download (Some ''/d'') (Some '''') ''u'' (Some example_instance) False True empty_world)
     = Inr (True, Location ''/d/.zip'')"
  by (simp add: download_defs world_defs)







section \<open>The extraction branch of download\<close>

text \<open>
  With \<open>extract\<close> true and \<open>overwrite\<close> false, whenever the archive is fetched and opened
  the call ends in the \<open>TypeError\<close> of calling a tuple, with the handle still open. With
  \<open>overwrite\<close> true the extraction runs unchecked and the paths are returned, again
  without closing. Without extraction the handle is closed before the return.
\<close>

lemma guarded_extraction_always_raises:
  assumes "zl = path_join d (z @ ''.zip'')"
    and "\<not> path_exists zl w"
    and "transport inst uri (Some zl) (files w) = (None, fs)"
    and "fs zl = Some (ZipData ms)"
  shows "fst (download (Some d) (Some z) uri (Some inst) True False w)
           = Inl (TypeError (CHR 0x27 # ''tuple'' @ CHR 0x27 # '' object is not callable''))
         \<and> zl \<in> set (open_zips (snd (download (Some d) (Some z) uri (Some inst) True False w)))"
  using assms
  by (simp add: download_def download_try_def Let_def print_def str_bool_def cache_preset_def
      intf_exec_def ZipFile_def safeUnzip_def call_def path_exists_def unzip_def extractall_def
      not_exists_check_def split: option.splits)

lemma unguarded_extraction_returns:
  assumes "zl = path_join d (z @ ''.zip'')"
    and "transport inst uri (Some zl) (files w) = (None, fs)"
    and "fs zl = Some (ZipData ms)"
  shows "fst (download (Some d) (Some z) uri (Some inst) True True w)
           = Inr (True, Paths (map (path_join d) (map fst ms)))
         \<and> zl \<in> set (open_zips (snd (download (Some d) (Some z) uri (Some inst) True True w)))"
  using assms
  by (simp add: download_def download_try_def Let_def print_def str_bool_def cache_preset_def
      intf_exec_def ZipFile_def safeUnzip_def call_def path_exists_def unzip_def extractall_def
      default_check_def check_members_None namelist_def
      split: option.splits)

lemma without_extraction_closes:
  assumes "zl = path_join d (z @ ''.zip'')"
    and "overwrite \<or> \<not> path_exists zl w"
    and "transport inst uri (Some zl) (files w) = (None, fs)"
    and "fs zl = Some (ZipData ms)"
  shows "download (Some d) (Some z) uri (Some inst) False overwrite w
           = (Inr (True, Location zl),
              w\<lparr>files := fs, stdout := stdout w @ [str_bool overwrite, uri],
                preset_path := Some zl, exec_calls := exec_calls w @ [uri]\<rparr>)"
  using assms
  by (auto simp: download_def download_try_def Let_def print_def cache_preset_def
      intf_exec_def ZipFile_def zip_close_def path_exists_def)

text \<open>
  C2. \<open>extract\<close> true, \<open>overwrite\<close> false, and member \<open>a\<close> of the archive already present
  in \<open>/d\<close>: \<open>unzip\<close> refuses and nothing is extracted (the files are the old \<open>/d/a\<close> and
  the downloaded archive), but the error raised is the \<open>TypeError\<close> of line 160, not the
  \<open>EnvironmentError\<close> of line 163 that names the member and the check.
\<close>

theorem download_collision_raises_TypeError:
  "fst (download (Some ''/d'') (Some ''z'') ''u'' (Some example_instance) True False
          (empty_world\<lparr>files := [''/d/a'' \<mapsto> Bytes ''old'']\<rparr>))
     = Inl (TypeError (CHR 0x27 # ''tuple'' @ CHR 0x27 # '' object is not callable''))
   \<and> files (snd (download (Some ''/d'') (Some ''z'') ''u'' (Some example_instance) True False
          (empty_world\<lparr>files := [''/d/a'' \<mapsto> Bytes ''old'']\<rparr>)))
     = [''/d/a'' \<mapsto> Bytes ''old'', ''/d/z.zip'' \<mapsto> ZipData example_archive]"
  by (simp add: download_defs world_defs)


text \<open>
  C3. \<open>extract\<close> true, \<open>overwrite\<close> false and an empty destination, so no member fails
  its check: both members are extracted, and then the call raises the \<open>TypeError\<close> of
  line 160 instead of returning the list of paths.
\<close>

theorem download_guarded_extraction_raises_TypeError:
  "fst (download (Some ''/d'') (Some ''z'') ''u'' (Some example_instance) True False empty_world)
     = Inl (TypeError (CHR 0x27 # ''tuple'' @ CHR 0x27 # '' object is not callable''))
   \<and> files (snd (download (Some ''/d'') (Some ''z'') ''u'' (Some example_instance) True False
          empty_world)) ''/d/a'' = Some (Bytes ''x'')
   \<and> files (snd (download (Some ''/d'') (Some ''z'') ''u'' (Some example_instance) True False
          empty_world)) ''/d/b'' = Some (Bytes ''y'')"
  by (simp add: download_defs world_defs)



section \<open>Archive naming\<close>

text \<open>
  C1. For \<open>_cbase = /projects/p/subjects/s/experiments/e\<close> and constraints \<open>T1\<close>, \<open>T2\<close>,
  \<open>default_zip_name\<close> joins \<open>vals\<close>, which line 86 fills with the category labels after
  the first (\<open>subjects\<close>, \<open>experiments\<close>), and the class name of the string \<open>_cbase\<close>:
  the result is \<open>subjects_experiments_str_T1_T2\<close>, and with any other label in place of
  \<open>str\<close> it still starts with \<open>subjects_experiments\<close>, not with \<open>p_s_e\<close>.
\<close>

theorem default_zip_name_joins_category_labels:
  "default_zip_name example_instance [''T1'', ''T2''] = Inr ''subjects_experiments_str_T1_T2''
   \<and> default_zip_name (example_instance\<lparr>cbase_class_name := ''Scans''\<rparr>) [''T1'', ''T2'']
       = Inr ''subjects_experiments_Scans_T1_T2''"
  by (simp add: default_zip_name_def example_instance_def)


end
